theory Spec2Isabelle
  imports Complex_Main
begin

section \<open>Data model (Backend/models.py)\<close>

text \<open>
  The Django models are rows of tables. A row keeps the columns that the recommendation
  service reads. Primary keys and foreign keys are integers. Python strings are modelled as
  ASCII text: the characters a--z, A--Z, 0--9 and the underscore are the word characters, and
  the ASCII characters for which \<^verbatim>\<open>str.isspace\<close> holds are the
  whitespace. Python floats are modelled as exact real numbers, so rounding is not part of
  the model. Timestamps are integers counting microseconds.
\<close>

record profile =
  pid :: int
  interests :: string
  bio :: string
  show_in_recommendations :: bool

record connection =
  follower_id :: int
  following_id :: int

record interaction =
  user_id :: int
  post_id :: int

record user_recommendation =
  ur_user_id :: int
  ur_recommended_user_id :: int
  ur_score :: real
  ur_mutual_connections_count :: int
  ur_common_interests_count :: int
  ur_reason :: string
  ur_created_at :: int
  ur_updated_at :: int

record database =
  profiles :: "profile list"
  connections :: "connection list"
  likes :: "interaction list"
  comments :: "interaction list"
  user_recommendations :: "user_recommendation list"

datatype error = ZeroDivisionError | NegativeIndexing

section \<open>Python string operations\<close>

definition is_upper :: "char \<Rightarrow> bool" where
  "is_upper c = (65 \<le> (of_char c :: nat) \<and> (of_char c :: nat) \<le> 90)"

definition is_lower :: "char \<Rightarrow> bool" where
  "is_lower c = (97 \<le> (of_char c :: nat) \<and> (of_char c :: nat) \<le> 122)"

definition is_digit :: "char \<Rightarrow> bool" where
  "is_digit c = (48 \<le> (of_char c :: nat) \<and> (of_char c :: nat) \<le> 57)"

definition is_alnum :: "char \<Rightarrow> bool" where
  "is_alnum c = (is_upper c \<or> is_lower c \<or> is_digit c)"

text \<open>The class \<^verbatim>\<open>\w\<close> of the \<^verbatim>\<open>re\<close> module: letters, digits and the underscore.\<close>

definition is_word_char :: "char \<Rightarrow> bool" where
  "is_word_char c = (is_alnum c \<or> c = CHR ''_'')"

text \<open>\<^verbatim>\<open>str.isspace\<close> on ASCII: tab, newline, vertical tab, form feed, carriage return,
  the separators 0x1c--0x1f and the space.\<close>

definition is_space :: "char \<Rightarrow> bool" where
  "is_space c = ((9 \<le> (of_char c :: nat) \<and> (of_char c :: nat) \<le> 13)
                 \<or> (28 \<le> (of_char c :: nat) \<and> (of_char c :: nat) \<le> 32))"

definition lower_char :: "char \<Rightarrow> char" where
  "lower_char c = (if is_upper c then char_of ((of_char c :: nat) + 32) else c)"

definition str_lower :: "string \<Rightarrow> string" where
  "str_lower s = map lower_char s"

definition str_strip :: "string \<Rightarrow> string" where
  "str_strip s = rev (dropWhile is_space (rev (dropWhile is_space s)))"

text \<open>\<^verbatim>\<open>s.split(sep)\<close> for a one-character separator: the empty string gives one empty
  piece, and a trailing separator gives a trailing empty piece.\<close>

fun str_split :: "char \<Rightarrow> string \<Rightarrow> string list" where
  "str_split sep [] = [[]]"
| "str_split sep (c # cs) =
     (if c = sep then [] # str_split sep cs
      else (case str_split sep cs of
              [] \<Rightarrow> [[c]]
            | w # ws \<Rightarrow> (c # w) # ws))"

text \<open>\<^verbatim>\<open>sep.join(xs)\<close>.\<close>

fun str_join :: "string \<Rightarrow> string list \<Rightarrow> string" where
  "str_join sep [] = []"
| "str_join sep [x] = x"
| "str_join sep (x # y # ys) = x @ sep @ str_join sep (y # ys)"

text \<open>\<^verbatim>\<open>re.findall(r'\b\w+\b', s)\<close>: scanning from the left, every maximal run of word
  characters is one match. The first argument is the run read so far.\<close>

fun findall_words_from :: "string \<Rightarrow> string \<Rightarrow> string list" where
  "findall_words_from run [] = (if run = [] then [] else [run])"
| "findall_words_from run (c # cs) =
     (if is_word_char c then findall_words_from (run @ [c]) cs
      else if run = [] then findall_words_from [] cs
      else run # findall_words_from [] cs)"

definition re_findall_words :: "string \<Rightarrow> string list" where
  "re_findall_words s = findall_words_from [] s"

text \<open>\<^verbatim>\<open>str(n)\<close> for an integer, as an f-string formats it: decimal digits, with a
  minus sign for a negative number.\<close>

definition digit_char :: "nat \<Rightarrow> char" where
  "digit_char d = char_of (48 + d)"

function str_nat :: "nat \<Rightarrow> string" where
  "str_nat n = (if n < 10 then [digit_char n] else str_nat (n div 10) @ [digit_char (n mod 10)])"
  by pat_completeness auto
termination
  by (relation "measure (\<lambda>n. n)") auto

declare str_nat.simps [simp del]

definition str_int :: "int \<Rightarrow> string" where
  "str_int i = (if i < 0 then CHR ''-'' # str_nat (nat (- i)) else str_nat (nat i))"

text \<open>\<^verbatim>\<open>xs[:n]\<close> on a Python list: a negative bound counts from the end.\<close>

definition py_slice_to :: "'a list \<Rightarrow> int \<Rightarrow> 'a list" where
  "py_slice_to xs n = (if n < 0 then take (nat (int (length xs) + n)) xs else take (nat n) xs)"

text \<open>True division \<^verbatim>\<open>a / b\<close> of two integers raises on a zero divisor.\<close>

definition py_truediv :: "int \<Rightarrow> int \<Rightarrow> error + real" where
  "py_truediv a b = (if b = 0 then Inl ZeroDivisionError else Inr (real_of_int a / real_of_int b))"

section \<open>Profile methods\<close>

text \<open>The loop of \<^verbatim>\<open>Profile.get_interests_list\<close>; the second argument is
  \<^verbatim>\<open>interests_list\<close>.\<close>

fun interests_loop :: "string list \<Rightarrow> string list \<Rightarrow> string list" where
  "interests_loop [] interests_list = interests_list"
| "interests_loop (interest # rest) interests_list =
     (let cleaned_interest = str_lower (str_strip interest)
      in if cleaned_interest \<noteq> []
         then interests_loop rest (interests_list @ [cleaned_interest])
         else interests_loop rest interests_list)"

definition get_interests_list :: "profile \<Rightarrow> string list" where
  "get_interests_list self =
     (if interests self = [] then []
      else interests_loop (str_split CHR '','' (interests self)) [])"

definition common_words :: "string set" where
  "common_words = set
     [''i'', ''am'', ''a'', ''an'', ''the'', ''is'', ''are'', ''was'', ''were'', ''be'', ''been'', ''being'',
      ''have'', ''has'', ''had'', ''do'', ''does'', ''did'', ''will'', ''would'', ''could'', ''should'',
      ''and'', ''or'', ''but'', ''in'', ''on'', ''at'', ''to'', ''for'', ''of'', ''with'', ''by'',
      ''love'', ''like'', ''enjoy'', ''who'', ''what'', ''where'', ''when'', ''why'', ''how'']"

text \<open>The loop of \<^verbatim>\<open>Profile.get_bio_keywords\<close>; the second argument is
  \<^verbatim>\<open>meaningful_words\<close>.\<close>

fun keywords_loop :: "string list \<Rightarrow> string list \<Rightarrow> string list" where
  "keywords_loop [] meaningful_words = meaningful_words"
| "keywords_loop (word # rest) meaningful_words =
     (if length word > 2 \<and> word \<notin> common_words
      then keywords_loop rest (meaningful_words @ [word])
      else keywords_loop rest meaningful_words)"

definition get_bio_keywords :: "profile \<Rightarrow> string list" where
  "get_bio_keywords self =
     (if bio self = [] then []
      else keywords_loop (re_findall_words (str_lower (bio self))) [])"

section \<open>RecommendationService\<close>

text \<open>\<^verbatim>\<open>Connection.objects.filter(follower=p).values_list('following_id', flat=True)\<close>.\<close>

definition following_ids :: "database \<Rightarrow> profile \<Rightarrow> int list" where
  "following_ids db p = map following_id (filter (\<lambda>c. follower_id c = pid p) (connections db))"

definition get_mutual_connections :: "database \<Rightarrow> profile \<Rightarrow> profile \<Rightarrow> profile list" where
  "get_mutual_connections db user_profile target_profile =
     (let user_following_ids = set (following_ids db user_profile);
          target_following_ids = set (following_ids db target_profile);
          mutual_following_ids = user_following_ids \<inter> target_following_ids
      in filter (\<lambda>p. pid p \<in> mutual_following_ids) (profiles db))"

definition calculate_interest_similarity :: "profile \<Rightarrow> profile \<Rightarrow> error + (int \<times> real)" where
  "calculate_interest_similarity user_profile target_profile =
     (let user_interests = set (get_interests_list user_profile);
          target_interests = set (get_interests_list target_profile);
          user_bio_keywords = set (get_bio_keywords user_profile);
          target_bio_keywords = set (get_bio_keywords target_profile);
          user_all_interests = user_interests \<union> user_bio_keywords;
          target_all_interests = target_interests \<union> target_bio_keywords
      in if user_all_interests = {} \<or> target_all_interests = {} then Inr (0, 0)
         else
           (let common_interests = user_all_interests \<inter> target_all_interests;
                union_interests = user_all_interests \<union> target_all_interests
            in case (if union_interests \<noteq> {}
                     then py_truediv (int (card common_interests)) (int (card union_interests))
                     else Inr 0) of
                 Inl e \<Rightarrow> Inl e
               | Inr similarity_score \<Rightarrow> Inr (int (card common_interests), similarity_score)))"

text \<open>The post ids a user has liked or commented on.\<close>

definition interactions_of :: "database \<Rightarrow> profile \<Rightarrow> int set" where
  "interactions_of db p =
     set (map post_id (filter (\<lambda>l. user_id l = pid p) (likes db)))
     \<union> set (map post_id (filter (\<lambda>c. user_id c = pid p) (comments db)))"

definition calculate_activity_similarity :: "database \<Rightarrow> profile \<Rightarrow> profile \<Rightarrow> int" where
  "calculate_activity_similarity db user_profile target_profile =
     (let user_interactions = interactions_of db user_profile;
          target_interactions = interactions_of db target_profile
      in if user_interactions = {} \<or> target_interactions = {} then 0
         else int (card (user_interactions \<inter> target_interactions)))"

record score_data =
  total_score :: real
  mutual_connections_count :: int
  common_interests_count :: int
  activity_similarity :: int
  mutual_connections :: "profile list"

definition calculate_recommendation_score :: "database \<Rightarrow> profile \<Rightarrow> profile \<Rightarrow> error + score_data" where
  "calculate_recommendation_score db user_profile target_profile =
     (let mutual_conns = get_mutual_connections db user_profile target_profile;
          mutual_count = int (length mutual_conns)
      in case calculate_interest_similarity user_profile target_profile of
           Inl e \<Rightarrow> Inl e
         | Inr (common_count, interest_similarity) \<Rightarrow>
             (let activity = calculate_activity_similarity db user_profile target_profile;
                  mutual_weight = 0.4;
                  interest_weight = 0.4;
                  activity_weight = 0.2;
                  mutual_score = min (real_of_int mutual_count / 5.0) 1.0;
                  activity_score = min (real_of_int activity / 10.0) 1.0
              in Inr \<lparr> total_score = mutual_score * mutual_weight
                                       + interest_similarity * interest_weight
                                       + activity_score * activity_weight,
                        mutual_connections_count = mutual_count,
                        common_interests_count = common_count,
                        activity_similarity = activity,
                        mutual_connections = mutual_conns \<rparr>))"

definition generate_recommendation_reason :: "score_data \<Rightarrow> string" where
  "generate_recommendation_reason sd =
     (let reasons0 = [];
          reasons1 = (if mutual_connections_count sd > 0
                      then (let count = mutual_connections_count sd
                            in reasons0 @ [str_int count @ '' mutual connection''
                                             @ (if count \<noteq> 1 then ''s'' else [])])
                      else reasons0);
          reasons2 = (if common_interests_count sd > 0
                      then (let count = common_interests_count sd
                            in reasons1 @ [str_int count @ '' common interest''
                                             @ (if count \<noteq> 1 then ''s'' else [])])
                      else reasons1);
          reasons3 = (if activity_similarity sd > 0
                      then reasons2 @ [''similar activity patterns'']
                      else reasons2)
      in if reasons3 = [] then ''Based on your network''
         else ''Based on '' @ str_join '', '' reasons3)"

text \<open>The dictionary built for one kept candidate.\<close>

record recommendation =
  r_user :: profile
  r_recommended_user :: profile
  r_score :: real
  r_mutual_connections_count :: int
  r_common_interests_count :: int
  r_reason :: string
  r_mutual_connections :: "profile list"

text \<open>The candidate loop of \<^verbatim>\<open>generate_recommendations_for_user\<close>; the last argument
  is \<^verbatim>\<open>recommendations\<close>. An exception of the scoring leaves the loop.\<close>

fun recommendations_loop ::
  "database \<Rightarrow> profile \<Rightarrow> real \<Rightarrow> profile list \<Rightarrow> recommendation list \<Rightarrow> error + recommendation list" where
  "recommendations_loop db user_profile min_score [] recommendations = Inr recommendations"
| "recommendations_loop db user_profile min_score (candidate # rest) recommendations =
     (case calculate_recommendation_score db user_profile candidate of
        Inl e \<Rightarrow> Inl e
      | Inr sd \<Rightarrow>
          if total_score sd \<ge> min_score
          then recommendations_loop db user_profile min_score rest
                 (recommendations @
                   [\<lparr> r_user = user_profile,
                      r_recommended_user = candidate,
                      r_score = total_score sd,
                      r_mutual_connections_count = mutual_connections_count sd,
                      r_common_interests_count = common_interests_count sd,
                      r_reason = generate_recommendation_reason sd,
                      r_mutual_connections = mutual_connections sd \<rparr>])
          else recommendations_loop db user_profile min_score rest recommendations)"

text \<open>\<^verbatim>\<open>Profile.objects.exclude(id__in=current_connections).filter(show_in_recommendations=True)\<close>,
  in the order of the table.\<close>

definition candidates_of :: "database \<Rightarrow> profile \<Rightarrow> profile list" where
  "candidates_of db user_profile =
     (let current_connections = insert (pid user_profile) (set (following_ids db user_profile))
      in filter (\<lambda>p. show_in_recommendations p)
           (filter (\<lambda>p. pid p \<notin> current_connections) (profiles db)))"

text \<open>\<^verbatim>\<open>list.sort(key=lambda x: x['score'], reverse=True)\<close> is a stable sort by descending
  score: records of equal score keep their order.\<close>

definition sort_by_score_desc :: "recommendation list \<Rightarrow> recommendation list" where
  "sort_by_score_desc recs = sort_key (\<lambda>x. - r_score x) recs"

definition generate_recommendations_for_user ::
  "database \<Rightarrow> profile \<Rightarrow> int \<Rightarrow> real \<Rightarrow> error + recommendation list" where
  "generate_recommendations_for_user db user_profile limit min_score =
     (case recommendations_loop db user_profile min_score (candidates_of db user_profile) [] of
        Inl e \<Rightarrow> Inl e
      | Inr recommendations \<Rightarrow> Inr (py_slice_to (sort_by_score_desc recommendations) limit))"









section \<open>The specification's wording, and example data\<close>

text \<open>The reason string as the specification words it: a clause list in a fixed order,
  joined by commas after the prefix.\<close>

definition plural_clause :: "int \<Rightarrow> string \<Rightarrow> string" where
  "plural_clause n noun = str_int n @ '' '' @ noun @ (if n = 1 then [] else ''s'')"

definition reason_clauses :: "int \<Rightarrow> int \<Rightarrow> int \<Rightarrow> string list" where
  "reason_clauses m c a =
     (if m > 0 then [plural_clause m ''mutual connection''] else [])
     @ (if c > 0 then [plural_clause c ''common interest''] else [])
     @ (if a > 0 then [''similar activity patterns''] else [])"

definition reason_spec :: "int \<Rightarrow> int \<Rightarrow> int \<Rightarrow> string" where
  "reason_spec m c a =
     (if reason_clauses m c a = [] then ''Based on your network''
      else ''Based on '' @ str_join '', '' (reason_clauses m c a))"


definition example_interests_profile :: profile where
  "example_interests_profile =
     \<lparr> pid = 1, interests = ''Photography, Travel, '', bio = [], show_in_recommendations = True \<rparr>"

definition duplicate_interests_profile :: profile where
  "duplicate_interests_profile =
     \<lparr> pid = 1, interests = ''travel, Travel'', bio = [], show_in_recommendations = True \<rparr>"

definition underscore_bio_profile :: profile where
  "underscore_bio_profile =
     \<lparr> pid = 1, interests = [], bio = ''rock_climbing'', show_in_recommendations = True \<rparr>"

text \<open>The quantities the specification names: the followees of a user, the combined
  interest set of a user, and the similarity of two such sets.\<close>

definition followees :: "database \<Rightarrow> profile \<Rightarrow> int set" where
  "followees db x = following_id ` Set.filter (\<lambda>c. follower_id c = pid x) (set (connections db))"

definition combined_interest_set :: "profile \<Rightarrow> string set" where
  "combined_interest_set p = set (get_interests_list p) \<union> set (get_bio_keywords p)"

definition interest_similarity_spec :: "string set \<Rightarrow> string set \<Rightarrow> int \<times> real" where
  "interest_similarity_spec A B =
     (if A = {} \<or> B = {} then (0, 0)
      else (int (card (A \<inter> B)), real (card (A \<inter> B)) / real (card (A \<union> B))))"

text \<open>Foreign keys of connections point to profiles, and profile ids are unique.\<close>

definition foreign_keys_ok :: "database \<Rightarrow> bool" where
  "foreign_keys_ok db = list_all (\<lambda>c. following_id c \<in> set (map pid (profiles db))) (connections db)"

definition primary_keys_ok :: "database \<Rightarrow> bool" where
  "primary_keys_ok db = distinct (map pid (profiles db))"

definition no_self_follow :: "database \<Rightarrow> bool" where
  "no_self_follow db = list_all (\<lambda>c. follower_id c \<noteq> following_id c) (connections db)"

definition mk_profile :: "int \<Rightarrow> string \<Rightarrow> string \<Rightarrow> profile" where
  "mk_profile i ints b = \<lparr> pid = i, interests = ints, bio = b, show_in_recommendations = True \<rparr>"

definition follows :: "int \<Rightarrow> int \<Rightarrow> connection" where
  "follows a b = \<lparr> follower_id = a, following_id = b \<rparr>"

text \<open>The scenario of the specification: A follows X and Y, B follows X and Z, and
  nobody has interests.\<close>

definition user_a :: profile where "user_a = mk_profile 1 [] []"
definition user_b :: profile where "user_b = mk_profile 2 [] []"
definition user_x :: profile where "user_x = mk_profile 3 [] []"
definition user_y :: profile where "user_y = mk_profile 4 [] []"
definition user_z :: profile where "user_z = mk_profile 5 [] []"

definition scenario_db :: database where
  "scenario_db =
     \<lparr> profiles = [user_a, user_b, user_x, user_y, user_z],
       connections = [follows 1 3, follows 1 4, follows 2 3, follows 2 5],
       likes = [], comments = [], user_recommendations = [] \<rparr>"

text \<open>A database with a self-follow edge: A follows A, and B follows A.\<close>

definition self_follow_db :: database where
  "self_follow_db =
     \<lparr> profiles = [user_a, user_b],
       connections = [follows 1 1, follows 2 1],
       likes = [], comments = [], user_recommendations = [] \<rparr>"

text \<open>The example of the docstring of \<^verbatim>\<open>calculate_interest_similarity\<close>.\<close>

definition doc_user_a :: profile where
  "doc_user_a = mk_profile 1 ''photography, travel'' ''photographer adventure''"

definition doc_user_b :: profile where
  "doc_user_b = mk_profile 2 ''travel, cooking'' ''chef adventure food''"

definition no_interests_user :: profile where
  "no_interests_user = mk_profile 3 '' , '' ''I am a''"

text \<open>The dictionary that \<^verbatim>\<open>generate_recommendations_for_user\<close> builds from a candidate
  and its score.\<close>

definition to_recommendation :: "profile \<Rightarrow> profile \<Rightarrow> score_data \<Rightarrow> recommendation" where
  "to_recommendation user_profile candidate sd =
     \<lparr> r_user = user_profile,
       r_recommended_user = candidate,
       r_score = total_score sd,
       r_mutual_connections_count = mutual_connections_count sd,
       r_common_interests_count = common_interests_count sd,
       r_reason = generate_recommendation_reason sd,
       r_mutual_connections = mutual_connections sd \<rparr>"






section \<open>Supporting lemmas\<close>

lemma of_char_lower_char:
  "(of_char (lower_char c) :: nat) = (if is_upper c then of_char c + 32 else of_char c)"
  by (simp add: lower_char_def is_upper_def)

lemma lower_char_not_upper: "\<not> is_upper (lower_char c)"
  by (simp add: is_upper_def of_char_lower_char)

lemma is_space_lower_char: "is_space (lower_char c) = is_space c"
  by (auto simp add: is_space_def is_upper_def of_char_lower_char)

lemma interests_loop_eq:
  "interests_loop xs acc = acc @ filter (\<lambda>t. t \<noteq> []) (map (\<lambda>t. str_lower (str_strip t)) xs)"
  by (induction xs arbitrary: acc) (simp_all add: Let_def)


lemma str_split_nonempty: "str_split sep s \<noteq> []"
  by (induction s) (auto split: list.splits)





lemma str_strip_subset: "set (str_strip s) \<subseteq> set s"
proof -
  have "set (dropWhile is_space (rev (dropWhile is_space s))) \<subseteq> set (rev (dropWhile is_space s))"
    by (auto dest: set_dropWhileD)
  also have "\<dots> \<subseteq> set s" by (auto dest: set_dropWhileD)
  finally show ?thesis by (simp add: str_strip_def)
qed



lemma str_split_no_sep: "t \<in> set (str_split sep s) \<Longrightarrow> sep \<notin> set t"
proof (induction s arbitrary: t)
  case Nil then show ?case by simp
next
  case (Cons c cs)
  obtain w ws where ws: "str_split sep cs = w # ws"
    using str_split_nonempty [of sep cs] by (cases "str_split sep cs") auto
  have w: "sep \<notin> set w"
    using Cons.IH [of w] ws by simp
  have rest: "sep \<notin> set u" if "u \<in> set ws" for u
    using Cons.IH [of u] ws that by simp
  show ?case
  proof (cases "c = sep")
    case True
    with Cons.prems ws have "t = [] \<or> t = w \<or> t \<in> set ws" by simp
    with w rest show ?thesis by auto
  next
    case False
    with Cons.prems ws have "t = c # w \<or> t \<in> set ws" by simp
    with w rest False show ?thesis by auto
  qed
qed

lemma str_join_split: "str_join [sep] (str_split sep s) = s"
proof (induction s)
  case Nil show ?case by simp
next
  case (Cons c cs)
  obtain w ws where ws: "str_split sep cs = w # ws"
    using str_split_nonempty [of sep cs] by (cases "str_split sep cs") auto
  show ?case
  proof (cases "c = sep")
    case True
    with Cons ws show ?thesis by simp
  next
    case False
    with Cons ws show ?thesis by (cases ws) simp_all
  qed
qed




lemma lower_char_eq_iff:
  assumes "\<not> is_upper d" "\<not> is_lower d"
  shows "lower_char c = d \<longleftrightarrow> c = d"
proof
  assume e: "lower_char c = d"
  then have "(of_char (lower_char c) :: nat) = of_char d" by simp
  with assms have "(of_char c :: nat) = of_char d"
    by (simp add: of_char_lower_char is_upper_def is_lower_def split: if_splits)
  then show "c = d" by (simp only: of_char_eq_iff)
next
  assume "c = d" with assms show "lower_char c = d"
    by (simp add: lower_char_def)
qed

lemma comma_not_letter: "\<not> is_upper CHR '',''" "\<not> is_lower CHR '',''"
  by (simp_all add: is_upper_def is_lower_def)

lemma underscore_not_letter: "\<not> is_upper CHR ''_''" "\<not> is_lower CHR ''_''"
  by (simp_all add: is_upper_def is_lower_def)

lemma str_strip_ends:
  assumes "str_strip s \<noteq> []"
  shows "\<not> is_space (hd (str_strip s))" and "\<not> is_space (last (str_strip s))"
proof -
  let ?a = "dropWhile is_space s"
  let ?b = "dropWhile is_space (rev ?a)"
  have b: "?b \<noteq> []" using assms by (simp add: str_strip_def)
  then have "\<not> is_space (hd ?b)" by (rule hd_dropWhile)
  then show "\<not> is_space (last (str_strip s))"
    using b by (simp add: str_strip_def last_rev)
  have a: "?a \<noteq> []"
  proof
    assume e: "?a = []"
    have "?b = []" unfolding e by simp
    with b show False by simp
  qed
  then have ha: "\<not> is_space (hd ?a)" by (rule hd_dropWhile)
  have "rev ?a = takeWhile is_space (rev ?a) @ ?b" by simp
  then have "last (rev ?a) = last ?b" using b by (metis last_appendR)
  then have "hd (rev ?b) = hd ?a"
    using a b by (simp add: hd_rev last_rev)
  then show "\<not> is_space (hd (str_strip s))"
    using ha by (simp add: str_strip_def)
qed


lemma concat_findall_words_from:
  "\<forall>c\<in>set run. is_word_char c \<Longrightarrow> concat (findall_words_from run s) = run @ filter is_word_char s"
proof (induction run s rule: findall_words_from.induct)
  case (1 run)
  show ?case by simp
next
  case (2 run c cs)
  show ?case
  proof (cases "is_word_char c")
    case True
    with "2.prems" have "\<forall>d\<in>set (run @ [c]). is_word_char d" by simp
    from "2.IH"(1) [OF True this] True show ?thesis by simp
  next
    case False
    have e: "\<forall>d\<in>set ([]::string). is_word_char d" by simp
    show ?thesis
    proof (cases "run = []")
      case True
      from "2.IH"(2) [OF False True e] False True show ?thesis by simp
    next
      case nonempty: False
      from "2.IH"(3) [OF False nonempty e] False nonempty show ?thesis by simp
    qed
  qed
qed

lemma get_interests_list_eq:
  "get_interests_list p =
     filter (\<lambda>t. t \<noteq> []) (map (\<lambda>t. str_lower (str_strip t)) (str_split CHR '','' (interests p)))"
proof (cases "interests p = []")
  case True
  then show ?thesis by (simp add: get_interests_list_def str_strip_def str_lower_def)
next
  case False
  then show ?thesis by (simp add: get_interests_list_def interests_loop_eq)
qed


lemma interest_token_props:
  assumes "t \<in> set (get_interests_list p)"
  shows "t \<noteq> []" "CHR '','' \<notin> set t" "\<forall>c\<in>set t. \<not> is_upper c"
    "\<not> is_space (hd t)" "\<not> is_space (last t)"
proof -
  from assms obtain u where u: "u \<in> set (str_split CHR '','' (interests p))"
    and t: "t = str_lower (str_strip u)" and ne: "t \<noteq> []"
    by (auto simp add: get_interests_list_eq)
  show "t \<noteq> []" by (rule ne)
  have strip_ne: "str_strip u \<noteq> []" using ne t by (simp add: str_lower_def)
  have "CHR '','' \<notin> set u" using u by (rule str_split_no_sep)
  then have no_comma: "CHR '','' \<notin> set (str_strip u)" using str_strip_subset [of u] by blast
  have "CHR '','' \<notin> set t"
  proof
    assume "CHR '','' \<in> set t"
    then obtain c where c: "c \<in> set (str_strip u)" and "lower_char c = CHR '',''"
      by (auto simp add: t str_lower_def)
    then have "c = CHR '',''"
      by (simp only: lower_char_eq_iff [OF comma_not_letter])
    with c no_comma show False by simp
  qed
  then show "CHR '','' \<notin> set t" .
  show "\<forall>c\<in>set t. \<not> is_upper c"
    by (auto simp add: t str_lower_def lower_char_not_upper)
  have "hd t = lower_char (hd (str_strip u))"
    using strip_ne by (simp add: t str_lower_def hd_map)
  then show "\<not> is_space (hd t)"
    using str_strip_ends(1) [OF strip_ne] by (simp add: is_space_lower_char)
  have "last t = lower_char (last (str_strip u))"
    using strip_ne by (simp add: t str_lower_def last_map)
  then show "\<not> is_space (last t)"
    using str_strip_ends(2) [OF strip_ne] by (simp add: is_space_lower_char)
qed


lemma example_interests_value:
  "get_interests_list example_interests_profile = [''photography'', ''travel'']"
  by code_simp


lemma underscore_bio_value:
  "get_bio_keywords underscore_bio_profile = [''rock_climbing'']"
  by code_simp

lemma set_following_ids: "set (following_ids db p) = followees db p"
  by (auto simp add: following_ids_def followees_def)

lemma get_mutual_connections_filter:
  "get_mutual_connections db a b =
     filter (\<lambda>p. pid p \<in> followees db a \<inter> followees db b) (profiles db)"
  by (simp add: get_mutual_connections_def Let_def set_following_ids)

lemma pids_get_mutual_connections:
  "pid ` set (get_mutual_connections db a b) =
     followees db a \<inter> followees db b \<inter> pid ` set (profiles db)"
  by (auto simp add: get_mutual_connections_filter)

lemma followees_subset_pids:
  assumes "foreign_keys_ok db"
  shows "followees db x \<subseteq> pid ` set (profiles db)"
  using assms by (auto simp add: foreign_keys_ok_def followees_def list_all_iff)

lemma pids_get_mutual_connections_fk:
  assumes "foreign_keys_ok db"
  shows "pid ` set (get_mutual_connections db a b) = followees db a \<inter> followees db b"
  using followees_subset_pids [OF assms, of a] by (auto simp add: pids_get_mutual_connections)


lemma calculate_activity_similarity_card:
  "calculate_activity_similarity db a b = int (card (interactions_of db a \<inter> interactions_of db b))"
  by (simp add: calculate_activity_similarity_def Let_def)

lemma finite_combined_interest_set: "finite (combined_interest_set p)"
  by (simp add: combined_interest_set_def)

lemma calculate_interest_similarity_spec:
  "calculate_interest_similarity a b =
     Inr (interest_similarity_spec (combined_interest_set a) (combined_interest_set b))"
proof -
  let ?A = "combined_interest_set a" and ?B = "combined_interest_set b"
  have unfolded: "calculate_interest_similarity a b =
     (if ?A = {} \<or> ?B = {} then Inr (0, 0)
      else case (if ?A \<union> ?B \<noteq> {}
                 then py_truediv (int (card (?A \<inter> ?B))) (int (card (?A \<union> ?B)))
                 else Inr 0) of
             Inl e \<Rightarrow> Inl e
           | Inr similarity_score \<Rightarrow> Inr (int (card (?A \<inter> ?B)), similarity_score))"
    unfolding calculate_interest_similarity_def combined_interest_set_def Let_def ..
  show ?thesis
  proof (cases "?A = {} \<or> ?B = {}")
    case True
    then show ?thesis unfolding unfolded by (simp add: interest_similarity_spec_def)
  next
    case False
    then have ne: "?A \<union> ?B \<noteq> {}" by simp
    have "finite (?A \<union> ?B)" by (simp add: finite_combined_interest_set)
    with ne have "card (?A \<union> ?B) \<noteq> 0" by (simp only: card_eq_0_iff) simp
    with False ne show ?thesis
      unfolding unfolded by (simp add: interest_similarity_spec_def py_truediv_def)
  qed
qed

lemma interest_similarity_spec_commute:
  "interest_similarity_spec A B = interest_similarity_spec B A"
  by (simp add: interest_similarity_spec_def Int_commute Un_commute disj_commute)

lemma calculate_recommendation_score_eq:
  "calculate_recommendation_score db a b =
     Inr \<lparr> total_score =
             min (real (length (get_mutual_connections db a b)) / 5) 1 * 0.4
             + snd (interest_similarity_spec (combined_interest_set a) (combined_interest_set b)) * 0.4
             + min (real (card (interactions_of db a \<inter> interactions_of db b)) / 10) 1 * 0.2,
           mutual_connections_count = int (length (get_mutual_connections db a b)),
           common_interests_count =
             fst (interest_similarity_spec (combined_interest_set a) (combined_interest_set b)),
           activity_similarity = int (card (interactions_of db a \<inter> interactions_of db b)),
           mutual_connections = get_mutual_connections db a b \<rparr>"
  by (simp add: calculate_recommendation_score_def calculate_interest_similarity_spec
      calculate_activity_similarity_card Let_def split: prod.splits)

lemma scenario_keys: "primary_keys_ok scenario_db" "foreign_keys_ok scenario_db" "no_self_follow scenario_db"
  by code_simp+

lemma scenario_followees:
  "followees scenario_db user_a \<inter> followees scenario_db user_b = {3}"
  by code_simp



lemma doc_sets:
  "combined_interest_set doc_user_a = {''photography'', ''travel'', ''photographer'', ''adventure''}"
  "combined_interest_set doc_user_b = {''travel'', ''cooking'', ''chef'', ''adventure'', ''food''}"
  "combined_interest_set no_interests_user = {}"
  by code_simp+

lemma doc_cards:
  "card (combined_interest_set doc_user_a \<inter> combined_interest_set doc_user_b) = 2"
  "card (combined_interest_set doc_user_a \<union> combined_interest_set doc_user_b) = 7"
  by code_simp+

lemma calculate_recommendation_score_total:
  "\<exists>sd. calculate_recommendation_score db a b = Inr sd"
  by (simp add: calculate_recommendation_score_eq)

lemma recommendations_loop_eq:
  "recommendations_loop db u ms cs acc =
     Inr (acc @ map (\<lambda>c. to_recommendation u c (projr (calculate_recommendation_score db u c)))
                  (filter (\<lambda>c. ms \<le> total_score (projr (calculate_recommendation_score db u c))) cs))"
proof (induction cs arbitrary: acc)
  case Nil
  show ?case by simp
next
  case (Cons c cs)
  obtain sd where sd: "calculate_recommendation_score db u c = Inr sd"
    using calculate_recommendation_score_total by blast
  show ?case
  proof (cases "ms \<le> total_score sd")
    case True
    then show ?thesis
      by (simp add: sd Cons.IH to_recommendation_def)
  next
    case False
    then show ?thesis
      by (simp add: sd Cons.IH)
  qed
qed

lemma set_py_slice_to: "set (py_slice_to xs n) \<subseteq> set xs"
  by (auto simp add: py_slice_to_def dest: in_set_takeD)

lemma py_slice_to_all: "int (length xs) \<le> n \<Longrightarrow> py_slice_to xs n = xs"
  by (simp add: py_slice_to_def)

lemma generate_recommendations_for_user_eq:
  "generate_recommendations_for_user db u limit ms =
     Inr (py_slice_to
            (sort_by_score_desc
               (map (\<lambda>c. to_recommendation u c (projr (calculate_recommendation_score db u c)))
                    (filter (\<lambda>c. ms \<le> total_score (projr (calculate_recommendation_score db u c)))
                       (candidates_of db u))))
            limit)"
  by (simp add: generate_recommendations_for_user_def recommendations_loop_eq)



lemma scenario_score:
  "calculate_recommendation_score scenario_db user_a user_b =
     Inr \<lparr> total_score = 0.08, mutual_connections_count = 1, common_interests_count = 0,
           activity_similarity = 0, mutual_connections = [user_x] \<rparr>"
  by code_simp

lemma scenario_candidates: "candidates_of scenario_db user_a = [user_b, user_z]"
  by code_simp








section \<open>The claims\<close>

text \<open>
  C8. For every score breakdown, the reason string of \<^verbatim>\<open>generate_recommendation_reason\<close>
  is the one the specification describes: the prefix "Based on " and the comma-joined clauses
  in the order mutual connections (if the count is positive; singular for 1, plural
  otherwise), common interests (the same way), "similar activity patterns" (if the activity
  overlap is positive); with no clause it is "Based on your network". For one mutual
  connection, three common interests and no activity overlap it is
  "Based on 1 mutual connection, 3 common interests".
\<close>

theorem C8_reason_follows_spec:
  "generate_recommendation_reason sd =
     reason_spec (mutual_connections_count sd) (common_interests_count sd) (activity_similarity sd)
   \<and> generate_recommendation_reason
        \<lparr> total_score = t, mutual_connections_count = 1, common_interests_count = 3,
          activity_similarity = 0, mutual_connections = ps \<rparr>
      = ''Based on 1 mutual connection, 3 common interests''
   \<and> generate_recommendation_reason
        \<lparr> total_score = t, mutual_connections_count = 0, common_interests_count = 0,
          activity_similarity = 0, mutual_connections = ps \<rparr>
      = ''Based on your network''"
proof -
  have three: "str_int 3 = ''3''" and one: "str_int 1 = ''1''"
    by code_simp+
  have "generate_recommendation_reason sd =
     reason_spec (mutual_connections_count sd) (common_interests_count sd) (activity_similarity sd)"
    by (simp add: generate_recommendation_reason_def reason_spec_def reason_clauses_def
        plural_clause_def Let_def)
  moreover have "generate_recommendation_reason
        \<lparr> total_score = t, mutual_connections_count = 1, common_interests_count = 3,
          activity_similarity = 0, mutual_connections = ps \<rparr>
      = ''Based on 1 mutual connection, 3 common interests''"
    by (simp add: generate_recommendation_reason_def Let_def three one)
  moreover have "generate_recommendation_reason
        \<lparr> total_score = t, mutual_connections_count = 0, common_interests_count = 0,
          activity_similarity = 0, mutual_connections = ps \<rparr>
      = ''Based on your network''"
    by (simp add: generate_recommendation_reason_def Let_def)
  ultimately show ?thesis by blast
qed




text \<open>
  C4 (as amended). \<^verbatim>\<open>get_interests_list\<close> splits the interests at commas, strips
  whitespace, lowercases, and drops the empty pieces; the result is a list in the order of
  the input, in which a repeated interest is repeated. Every element is non-empty, holds no
  comma and no capital letter, and neither begins nor ends with whitespace. For
  "Photography, Travel, " the result is photography, travel.
\<close>

theorem C4_interests_list_normalised:
  "get_interests_list p =
     filter (\<lambda>t. t \<noteq> []) (map (\<lambda>t. str_lower (str_strip t)) (str_split CHR '','' (interests p)))
   \<and> (\<forall>t\<in>set (get_interests_list p).
         t \<noteq> [] \<and> CHR '','' \<notin> set t \<and> (\<forall>c\<in>set t. \<not> is_upper c)
         \<and> \<not> is_space (hd t) \<and> \<not> is_space (last t))
   \<and> get_interests_list example_interests_profile = [''photography'', ''travel'']"
proof -
  have a: "get_interests_list p =
     filter (\<lambda>t. t \<noteq> []) (map (\<lambda>t. str_lower (str_strip t)) (str_split CHR '','' (interests p)))"
    by (rule get_interests_list_eq)
  have b: "\<forall>t\<in>set (get_interests_list p).
         t \<noteq> [] \<and> CHR '','' \<notin> set t \<and> (\<forall>c\<in>set t. \<not> is_upper c)
         \<and> \<not> is_space (hd t) \<and> \<not> is_space (last t)"
  proof
    fix t assume t: "t \<in> set (get_interests_list p)"
    show "t \<noteq> [] \<and> CHR '','' \<notin> set t \<and> (\<forall>c\<in>set t. \<not> is_upper c)
         \<and> \<not> is_space (hd t) \<and> \<not> is_space (last t)"
      by (intro conjI) (rule interest_token_props [OF t])+
  qed
  show ?thesis
    by (rule conjI [OF a conjI [OF b example_interests_value]])
qed

text \<open>The element "travel" of the example satisfies what the theorem promises.\<close>

theorem C4_interests_list_normalised_witness:
  "''travel'' \<in> set (get_interests_list example_interests_profile)
   \<and> (''travel'' \<noteq> [] \<and> CHR '','' \<notin> set ''travel'' \<and> list_all (\<lambda>c. \<not> is_upper c) ''travel''
      \<and> \<not> is_space (hd ''travel'') \<and> \<not> is_space (last ''travel''))
   \<and> get_interests_list example_interests_profile = [''photography'', ''travel'']"
proof -
  note inst = C4_interests_list_normalised [of example_interests_profile]
  have v: "get_interests_list example_interests_profile = [''photography'', ''travel'']"
    by (rule conjunct2 [OF conjunct2 [OF inst]])
  have m: "''travel'' \<in> set (get_interests_list example_interests_profile)"
    unfolding v by simp
  have p: "''travel'' \<noteq> [] \<and> CHR '','' \<notin> set ''travel'' \<and> (\<forall>c\<in>set ''travel''. \<not> is_upper c)
      \<and> \<not> is_space (hd ''travel'') \<and> \<not> is_space (last ''travel'')"
    by (rule bspec [OF conjunct1 [OF conjunct2 [OF inst]] m])
  have chars: "list_all (\<lambda>c. \<not> is_upper c) ''travel''"
    unfolding list_all_iff by (rule conjunct1 [OF conjunct2 [OF conjunct2 [OF p]]])
  have p': "''travel'' \<noteq> [] \<and> CHR '','' \<notin> set ''travel'' \<and> list_all (\<lambda>c. \<not> is_upper c) ''travel''
      \<and> \<not> is_space (hd ''travel'') \<and> \<not> is_space (last ''travel'')"
    by (rule conjI [OF conjunct1 [OF p] conjI [OF conjunct1 [OF conjunct2 [OF p]]
          conjI [OF chars conjunct2 [OF conjunct2 [OF conjunct2 [OF p]]]]]])
  show ?thesis
    by (rule conjI [OF m conjI [OF p' v]])
qed

text \<open>The claim as stated fails on "travel, Travel": the result holds the same token
  twice.\<close>

theorem C4_duplicates_counterexample:
  "get_interests_list duplicate_interests_profile = [''travel'', ''travel'']
   \<and> \<not> distinct (get_interests_list duplicate_interests_profile)"
proof -
  have v: "get_interests_list duplicate_interests_profile = [''travel'', ''travel'']"
    by code_simp
  have "\<not> distinct (get_interests_list duplicate_interests_profile)"
    unfolding v by simp
  with v show ?thesis by (rule conjI)
qed



text \<open>
  C2 (as amended). The profiles that \<^verbatim>\<open>get_mutual_connections\<close> returns are the
  existing profiles of the users both a and b follow; when every connection points to a
  profile, their ids are the intersection of the two followee sets. The function has no
  failing branch, with or without self-follow edges. The result holds a exactly when a
  follows a and b follows a (and likewise b); so without self-follow edges it holds neither
  a nor b.
\<close>

theorem C2_mutual_connections:
  "pid ` set (get_mutual_connections db a b)
     = followees db a \<inter> followees db b \<inter> pid ` set (profiles db)
   \<and> (foreign_keys_ok db \<longrightarrow>
        pid ` set (get_mutual_connections db a b) = followees db a \<inter> followees db b
        \<and> (pid a \<in> pid ` set (get_mutual_connections db a b)
             \<longleftrightarrow> pid a \<in> followees db a \<and> pid a \<in> followees db b)
        \<and> (pid b \<in> pid ` set (get_mutual_connections db a b)
             \<longleftrightarrow> pid b \<in> followees db a \<and> pid b \<in> followees db b))
   \<and> (no_self_follow db \<longrightarrow>
        pid a \<notin> pid ` set (get_mutual_connections db a b)
        \<and> pid b \<notin> pid ` set (get_mutual_connections db a b))"
proof -
  have eq: "pid ` set (get_mutual_connections db a b)
     = followees db a \<inter> followees db b \<inter> pid ` set (profiles db)"
    by (rule pids_get_mutual_connections)
  have fk: "pid ` set (get_mutual_connections db a b) = followees db a \<inter> followees db b"
    if "foreign_keys_ok db"
    using that by (rule pids_get_mutual_connections_fk)
  have self: "pid x \<notin> followees db x" if "no_self_follow db" for x
    using that by (auto simp add: no_self_follow_def followees_def list_all_iff)
  have part2: "foreign_keys_ok db \<longrightarrow>
        pid ` set (get_mutual_connections db a b) = followees db a \<inter> followees db b
        \<and> (pid a \<in> pid ` set (get_mutual_connections db a b)
             \<longleftrightarrow> pid a \<in> followees db a \<and> pid a \<in> followees db b)
        \<and> (pid b \<in> pid ` set (get_mutual_connections db a b)
             \<longleftrightarrow> pid b \<in> followees db a \<and> pid b \<in> followees db b)"
    using fk by auto
  have part3: "no_self_follow db \<longrightarrow>
        pid a \<notin> pid ` set (get_mutual_connections db a b)
        \<and> pid b \<notin> pid ` set (get_mutual_connections db a b)"
    unfolding eq using self by blast
  from eq part2 part3 show ?thesis by (intro conjI)
qed

text \<open>
  In the scenario of the specification there is no self-follow edge, the mutual
  connections of A and B are X alone, and neither A nor B is among them.
\<close>

theorem C2_mutual_connections_witness:
  "foreign_keys_ok scenario_db \<and> no_self_follow scenario_db
   \<and> pid ` set (get_mutual_connections scenario_db user_a user_b) = {3}
   \<and> pid user_a \<notin> pid ` set (get_mutual_connections scenario_db user_a user_b)
   \<and> pid user_b \<notin> pid ` set (get_mutual_connections scenario_db user_a user_b)"
proof -
  note inst = C2_mutual_connections [of scenario_db user_a user_b]
  from inst scenario_keys(2)
  have "pid ` set (get_mutual_connections scenario_db user_a user_b)
          = followees scenario_db user_a \<inter> followees scenario_db user_b"
    by blast
  then have eq: "pid ` set (get_mutual_connections scenario_db user_a user_b) = {3}"
    by (simp only: scenario_followees)
  have "pid user_a \<notin> pid ` set (get_mutual_connections scenario_db user_a user_b)
          \<and> pid user_b \<notin> pid ` set (get_mutual_connections scenario_db user_a user_b)"
    using inst scenario_keys(3) by blast
  with eq scenario_keys(2) scenario_keys(3) show ?thesis by blast
qed

text \<open>
  The claim as stated fails when A follows A and B follows A: A is a mutual connection
  of A and B.
\<close>

theorem C2_self_follow_counterexample:
  "get_mutual_connections self_follow_db user_a user_b = [user_a]
   \<and> user_a \<in> set (get_mutual_connections self_follow_db user_a user_b)"
proof -
  have v: "get_mutual_connections self_follow_db user_a user_b = [user_a]"
    by code_simp
  have "user_a \<in> set (get_mutual_connections self_follow_db user_a user_b)"
    unfolding v by simp
  with v show ?thesis by (rule conjI)
qed

text \<open>
  C5. If the combined interest set (interests united with bio keywords) of either user
  is empty, \<^verbatim>\<open>calculate_interest_similarity\<close> returns the value (0, 0.0) and no error.
  Otherwise the union is not empty, no division by zero occurs, and the value is the size of
  the intersection together with that size divided by the size of the union.
\<close>

theorem C5_interest_similarity:
  "(combined_interest_set a = {} \<or> combined_interest_set b = {}
      \<longrightarrow> calculate_interest_similarity a b = Inr (0, 0))
   \<and> (combined_interest_set a \<noteq> {} \<and> combined_interest_set b \<noteq> {}
      \<longrightarrow> 0 < card (combined_interest_set a \<union> combined_interest_set b)
        \<and> calculate_interest_similarity a b =
            Inr (int (card (combined_interest_set a \<inter> combined_interest_set b)),
                 real (card (combined_interest_set a \<inter> combined_interest_set b))
                 / real (card (combined_interest_set a \<union> combined_interest_set b))))"
proof -
  have "0 < card (combined_interest_set a \<union> combined_interest_set b)"
    if "combined_interest_set a \<noteq> {}"
    using that by (simp add: card_gt_0_iff finite_combined_interest_set)
  then show ?thesis
    unfolding calculate_interest_similarity_spec interest_similarity_spec_def by auto
qed

text \<open>
  Both branches at concrete users: a user whose interests and bio give no
  token, and the two users of the docstring, whose similarity is 2 / 7.
\<close>

theorem C5_interest_similarity_witness:
  "combined_interest_set no_interests_user = {}
   \<and> calculate_interest_similarity doc_user_a no_interests_user = Inr (0, 0)
   \<and> combined_interest_set doc_user_a \<noteq> {} \<and> combined_interest_set doc_user_b \<noteq> {}
   \<and> calculate_interest_similarity doc_user_a doc_user_b = Inr (2, 2 / 7)"
proof -
  have empty: "combined_interest_set no_interests_user = {}" by (rule doc_sets(3))
  have nonempty: "combined_interest_set doc_user_a \<noteq> {}" "combined_interest_set doc_user_b \<noteq> {}"
    unfolding doc_sets by simp_all
  from C5_interest_similarity [of doc_user_a no_interests_user] empty
  have first: "calculate_interest_similarity doc_user_a no_interests_user = Inr (0, 0)"
    by blast
  from C5_interest_similarity [of doc_user_a doc_user_b] nonempty
  have "calculate_interest_similarity doc_user_a doc_user_b =
            Inr (int (card (combined_interest_set doc_user_a \<inter> combined_interest_set doc_user_b)),
                 real (card (combined_interest_set doc_user_a \<inter> combined_interest_set doc_user_b))
                 / real (card (combined_interest_set doc_user_a \<union> combined_interest_set doc_user_b)))"
    by blast
  then have second: "calculate_interest_similarity doc_user_a doc_user_b = Inr (2, 2 / 7)"
    unfolding doc_cards by simp
  from empty first nonempty second show ?thesis by blast
qed

text \<open>
  C6. \<^verbatim>\<open>calculate_interest_similarity\<close> gives the same pair for (a, b) and (b, a), and
  \<^verbatim>\<open>get_mutual_connections\<close> gives the same profiles for (a, b) and (b, a).
\<close>

theorem C6_symmetry:
  "calculate_interest_similarity a b = calculate_interest_similarity b a
   \<and> get_mutual_connections db a b = get_mutual_connections db b a
   \<and> set (get_mutual_connections db a b) = set (get_mutual_connections db b a)"
  by (simp add: calculate_interest_similarity_spec interest_similarity_spec_commute [of "combined_interest_set a"]
      get_mutual_connections_filter Int_commute)

text \<open>
  C7. For every user, every minimum score and every limit,
  \<^verbatim>\<open>generate_recommendations_for_user\<close> returns a list, and every recommendation in it is
  a candidate whose score, as \<^verbatim>\<open>calculate_recommendation_score\<close> computes it, is at least
  the minimum score. The boundary is inclusive: a candidate whose score equals the minimum
  score passes the threshold, so it is in the result whenever the limit does not cut the
  list (the limit is at least the number of candidates).
\<close>

theorem C7_threshold:
  "\<exists>recs. generate_recommendations_for_user db u limit min_score = Inr recs
     \<and> (\<forall>r\<in>set recs.
           min_score \<le> r_score r
           \<and> r_recommended_user r \<in> set (candidates_of db u)
           \<and> (\<exists>sd. calculate_recommendation_score db u (r_recommended_user r) = Inr sd
                  \<and> r_score r = total_score sd))
     \<and> (\<forall>c\<in>set (candidates_of db u). \<forall>sd.
           calculate_recommendation_score db u c = Inr sd \<and> total_score sd = min_score
           \<and> int (length (candidates_of db u)) \<le> limit
           \<longrightarrow> c \<in> r_recommended_user ` set recs)"
proof -
  let ?sc = "\<lambda>c. projr (calculate_recommendation_score db u c)"
  let ?kept = "map (\<lambda>c. to_recommendation u c (?sc c))
                 (filter (\<lambda>c. min_score \<le> total_score (?sc c)) (candidates_of db u))"
  let ?recs = "py_slice_to (sort_by_score_desc ?kept) limit"
  have gen: "generate_recommendations_for_user db u limit min_score = Inr ?recs"
    by (rule generate_recommendations_for_user_eq)
  have sub: "set ?recs \<subseteq> set ?kept"
    using set_py_slice_to [of "sort_by_score_desc ?kept" limit]
    by (simp add: sort_by_score_desc_def)
  have each: "min_score \<le> r_score r
           \<and> r_recommended_user r \<in> set (candidates_of db u)
           \<and> (\<exists>sd. calculate_recommendation_score db u (r_recommended_user r) = Inr sd
                  \<and> r_score r = total_score sd)" if "r \<in> set ?recs" for r
  proof -
    from that sub have "r \<in> set ?kept" by blast
    then obtain c where c: "c \<in> set (candidates_of db u)"
      and ge: "min_score \<le> total_score (?sc c)"
      and r: "r = to_recommendation u c (?sc c)"
      by auto
    obtain sd where sd: "calculate_recommendation_score db u c = Inr sd"
      using calculate_recommendation_score_total by blast
    from c ge r sd show ?thesis
      by (simp add: to_recommendation_def)
  qed
  have boundary: "c \<in> r_recommended_user ` set ?recs"
    if c: "c \<in> set (candidates_of db u)"
      and sd: "calculate_recommendation_score db u c = Inr sd"
      and eq: "total_score sd = min_score"
      and lim: "int (length (candidates_of db u)) \<le> limit" for c sd
  proof -
    have "length (sort_by_score_desc ?kept) \<le> length (candidates_of db u)"
      by (simp add: sort_by_score_desc_def)
    with lim have "int (length (sort_by_score_desc ?kept)) \<le> limit" by simp
    then have "?recs = sort_by_score_desc ?kept" by (rule py_slice_to_all)
    then have "set ?recs = set ?kept" by (simp add: sort_by_score_desc_def)
    moreover have "to_recommendation u c (?sc c) \<in> set ?kept"
    proof -
      have "min_score \<le> total_score (?sc c)" by (simp add: sd eq)
      with c have "c \<in> set (filter (\<lambda>c. min_score \<le> total_score (?sc c)) (candidates_of db u))"
        by simp
      then show ?thesis by force
    qed
    moreover have "r_recommended_user (to_recommendation u c (?sc c)) = c"
      by (simp add: to_recommendation_def)
    ultimately show ?thesis by (metis imageI)
  qed
  from gen each boundary show ?thesis by blast
qed

text \<open>
  In the scenario of the specification B is a candidate for A with score 0.08; with
  the minimum score 0.08 and the limit 10, B is recommended.
\<close>

theorem C7_threshold_witness:
  "user_b \<in> set (candidates_of scenario_db user_a)
   \<and> (\<exists>sd. calculate_recommendation_score scenario_db user_a user_b = Inr sd
          \<and> total_score sd = 0.08)
   \<and> int (length (candidates_of scenario_db user_a)) \<le> 10
   \<and> (\<exists>recs. generate_recommendations_for_user scenario_db user_a 10 0.08 = Inr recs
          \<and> user_b \<in> r_recommended_user ` set recs
          \<and> list_all (\<lambda>r. 0.08 \<le> r_score r) recs)"
proof -
  have c: "user_b \<in> set (candidates_of scenario_db user_a)"
    by (simp add: scenario_candidates)
  have lim: "int (length (candidates_of scenario_db user_a)) \<le> 10"
    by (simp add: scenario_candidates)
  have sc: "\<exists>sd. calculate_recommendation_score scenario_db user_a user_b = Inr sd
          \<and> total_score sd = 0.08"
    by (simp add: scenario_score)
  from C7_threshold [of scenario_db user_a 10 "0.08"]
  obtain recs where gen: "generate_recommendations_for_user scenario_db user_a 10 0.08 = Inr recs"
    and each: "\<forall>r\<in>set recs. 0.08 \<le> r_score r"
    and boundary: "\<forall>c\<in>set (candidates_of scenario_db user_a). \<forall>sd.
           calculate_recommendation_score scenario_db user_a c = Inr sd \<and> total_score sd = 0.08
           \<and> int (length (candidates_of scenario_db user_a)) \<le> 10
           \<longrightarrow> c \<in> r_recommended_user ` set recs"
    by blast
  from boundary c sc lim have "user_b \<in> r_recommended_user ` set recs" by blast
  moreover from each have "list_all (\<lambda>r. 0.08 \<le> r_score r) recs"
    by (simp add: list_all_iff)
  ultimately have "\<exists>recs. generate_recommendations_for_user scenario_db user_a 10 0.08 = Inr recs
          \<and> user_b \<in> r_recommended_user ` set recs
          \<and> list_all (\<lambda>r. 0.08 \<le> r_score r) recs"
    using gen by blast
  with c sc lim show ?thesis by blast
qed







end
